theory Spec2Isabelle
  imports Main
begin

section \<open>The Command pattern of \<open>src/command.cpp\<close>\<close>

text \<open>
  The program is a line-driven editor shell: \<open>Application::Run\<close> reads a line, \<open>ParseInput\<close>
  turns it into a heap-allocated command object (or \<open>nullptr\<close>), the command is executed on
  the single \<open>Editor\<close> member of the application and its pointer is pushed onto the
  \<open>CommandHistory\<close>.

  The embedding keeps the program's state explicit: the editor's two fields, the history
  vector, the free store of command objects, the lines written to \<open>cout\<close>, and a trace of
  the receiver methods that were entered (the trace is instrumentation: the receiver's
  notifications do not show the argument a method was called with, the trace does).
\<close>

subsection \<open>Console output\<close>

text \<open>
  Every \<open>cout <<\<close> of the source writes one fixed line of Russian text. The bytes of these
  literals depend on the compiler's execution character set, so each literal is a
  constructor, named after the source line that prints it:
  \<^item> \<open>Msg_Save\<close> (line 24), \<open>Msg_SaveAs\<close> (27), \<open>Msg_Open\<close> (30), \<open>Msg_Print\<close> (33),
    \<open>Msg_Close\<close> (36), \<open>Msg_Revert\<close> (39), \<open>Msg_CreateNew\<close> (42),
    \<open>Msg_CloneRepository\<close> (45): the receiver's notifications;
  \<^item> \<open>Msg_Prompt\<close> (142): the request to enter a command;
  \<^item> \<open>Msg_NotRecognized\<close> (156): "the program cannot recognise the command";
  \<^item> \<open>Msg_Missing_newpath\<close> (176), \<open>Msg_Missing_filepath\<close> (183): "missing argument".
\<close>

datatype console_line =
    Msg_Save | Msg_SaveAs | Msg_Open | Msg_Print | Msg_Close | Msg_Revert
  | Msg_CreateNew | Msg_CloneRepository
  | Msg_Prompt | Msg_NotRecognized | Msg_Missing_newpath | Msg_Missing_filepath

subsection \<open>Data model\<close>

text \<open>Class \<open>Editor\<close> (lines 19-56): two private string fields.\<close>

record Editor =
  filepath :: string
  filecontent :: string

text \<open>
  The concrete command classes (lines 59-116). Every class holds the same \<open>Editor*\<close>;
  the program has one \<open>Editor\<close> object (the member of \<open>Application\<close>, line 212) and every
  constructor call passes its address, so the pointer is not a field of the model.
  The fields of \<open>SaveAsCommand\<close> are \<open>oldpath\<close> and \<open>newpath\<close>, in the order of their
  declaration (lines 76-77).
\<close>

datatype Command =
    SaveCommand
  | SaveAsCommand string string
  | OpenCommand string
  | PrintCommand
  | CloseCommand
  | NewCommand

text \<open>A \<open>Command*\<close>: the null pointer or the address of an object of the free store.\<close>

datatype cmd_ptr = nullptr | Addr nat

text \<open>The receiver method calls that the trace records, with their arguments.\<close>

datatype editor_call =
    Call_Save | Call_SaveAs string | Call_Open string | Call_Print | Call_Close
  | Call_Revert | Call_CreateNew | Call_CloneRepository string | Call_SetPath string

text \<open>
  Operations whose behaviour the C++ standard leaves undefined: \<open>tokens[0]\<close> on an empty
  vector (line 166), \<open>commands.back()\<close> on an empty vector (line 125), and a member call
  through a pointer that is null or addresses no object.
\<close>

datatype undefined_behaviour = Empty_Vector_Index | Empty_Vector_Back | Invalid_Pointer

record state =
  editor :: Editor
  commandhistory :: "cmd_ptr list"
  heap :: "Command list"
  cout :: "console_line list"
  calls :: "editor_call list"

text \<open>The state after \<open>Application app;\<close> (line 217): \<open>Editor()\<close> leaves both strings empty.\<close>

definition Application_init :: state where
  "Application_init =
     \<lparr>editor = \<lparr>filepath = [], filecontent = []\<rparr>, commandhistory = [], heap = [],
      cout = [], calls = []\<rparr>"

subsection \<open>The receiver\<close>

definition notify :: "console_line \<Rightarrow> editor_call \<Rightarrow> state \<Rightarrow> state" where
  "notify m c s = s\<lparr>cout := cout s @ [m], calls := calls s @ [c]\<rparr>"

definition Editor_Save :: "state \<Rightarrow> state" where
  "Editor_Save s = notify Msg_Save Call_Save s"

definition Editor_SaveAs :: "string \<Rightarrow> state \<Rightarrow> state" where
  "Editor_SaveAs newpath s = notify Msg_SaveAs (Call_SaveAs newpath) s"

definition Editor_Open :: "string \<Rightarrow> state \<Rightarrow> state" where
  "Editor_Open path s = notify Msg_Open (Call_Open path) s"

definition Editor_Print :: "state \<Rightarrow> state" where
  "Editor_Print s = notify Msg_Print Call_Print s"

definition Editor_Close :: "state \<Rightarrow> state" where
  "Editor_Close s = notify Msg_Close Call_Close s"

definition Editor_Revert :: "state \<Rightarrow> state" where
  "Editor_Revert s = notify Msg_Revert Call_Revert s"

definition Editor_CreateNew :: "state \<Rightarrow> state" where
  "Editor_CreateNew s = notify Msg_CreateNew Call_CreateNew s"

definition Editor_CloneRepository :: "string \<Rightarrow> state \<Rightarrow> state" where
  "Editor_CloneRepository repositoryurl s =
     notify Msg_CloneRepository (Call_CloneRepository repositoryurl) s"

text \<open>\<open>SetPath\<close> (line 47) assigns the field and prints nothing.\<close>

definition Editor_SetPath :: "string \<Rightarrow> state \<Rightarrow> state" where
  "Editor_SetPath path s =
     s\<lparr>editor := (editor s)\<lparr>filepath := path\<rparr>, calls := calls s @ [Call_SetPath path]\<rparr>"

text \<open>\<open>GetPath\<close> (line 50) is \<open>const\<close>: a function of the state, not traced.\<close>

definition Editor_GetPath :: "state \<Rightarrow> string" where
  "Editor_GetPath s = filepath (editor s)"

subsection \<open>The commands\<close>

text \<open>
  The constructor of \<open>SaveAsCommand\<close> (lines 70-71) reads the receiver's path; the other
  constructors store their arguments.
\<close>

definition SaveAsCommand_ctor :: "state \<Rightarrow> string \<Rightarrow> Command" where
  "SaveAsCommand_ctor s newpath = SaveAsCommand (Editor_GetPath s) newpath"

fun Execute :: "Command \<Rightarrow> state \<Rightarrow> state" where
  "Execute SaveCommand s = Editor_Save s"
| "Execute (SaveAsCommand oldpath newpath) s = Editor_SaveAs newpath s"
| "Execute (OpenCommand path) s = Editor_Open path s"
| "Execute PrintCommand s = Editor_Print s"
| "Execute CloseCommand s = Editor_Close s"
| "Execute NewCommand s = Editor_CreateNew s"

fun Undo :: "Command \<Rightarrow> state \<Rightarrow> state" where
  "Undo SaveCommand s = Editor_Revert s"
| "Undo (SaveAsCommand oldpath newpath) s = Editor_SetPath oldpath s"
| "Undo (OpenCommand path) s = Editor_Close s"
| "Undo PrintCommand s = s"
| "Undo CloseCommand s = Editor_Open (Editor_GetPath s) s"
| "Undo NewCommand s = Editor_Close s"

subsection \<open>The free store\<close>

text \<open>
  \<open>new\<close> places the object behind the objects allocated so far; nothing is ever deleted,
  so the address of an object is its position.
\<close>

definition new :: "Command \<Rightarrow> state \<Rightarrow> cmd_ptr \<times> state" where
  "new c s = (Addr (length (heap s)), s\<lparr>heap := heap s @ [c]\<rparr>)"

fun deref :: "cmd_ptr \<Rightarrow> state \<Rightarrow> Command option" where
  "deref nullptr s = None"
| "deref (Addr a) s = (if a < length (heap s) then Some (heap s ! a) else None)"

text \<open>The virtual calls \<open>command->Execute()\<close> and \<open>command->Undo()\<close>.\<close>

definition call_Execute :: "cmd_ptr \<Rightarrow> state \<Rightarrow> undefined_behaviour + state" where
  "call_Execute p s =
     (case deref p s of None \<Rightarrow> Inl Invalid_Pointer | Some c \<Rightarrow> Inr (Execute c s))"

definition call_Undo :: "cmd_ptr \<Rightarrow> state \<Rightarrow> undefined_behaviour + state" where
  "call_Undo p s =
     (case deref p s of None \<Rightarrow> Inl Invalid_Pointer | Some c \<Rightarrow> Inr (Undo c s))"

subsection \<open>The history\<close>

text \<open>Class \<open>CommandHistory\<close> (lines 119-131) on its vector.\<close>

definition Push :: "cmd_ptr \<Rightarrow> cmd_ptr list \<Rightarrow> cmd_ptr list" where
  "Push command commands = commands @ [command]"

definition Pop :: "cmd_ptr list \<Rightarrow> undefined_behaviour + (cmd_ptr \<times> cmd_ptr list)" where
  "Pop commands =
     (if commands = [] then Inl Empty_Vector_Back
      else Inr (last commands, butlast commands))"

subsection \<open>Tokenizing\<close>

text \<open>
  \<open>iss >> token\<close> (line 206) skips whitespace and then reads up to the next whitespace
  character or the end of the stream; it fails when nothing but whitespace is left. The
  stream has the classic locale, whose whitespace is the space and the characters 9 to 13.
\<close>

definition isspace :: "char \<Rightarrow> bool" where
  "isspace c \<longleftrightarrow>
     c = CHR 0x20 \<or> c = CHR 0x09 \<or> c = CHR 0x0A \<or> c = CHR 0x0B \<or> c = CHR 0x0C \<or> c = CHR 0x0D"

definition stream_extract :: "string \<Rightarrow> (string \<times> string) option" where
  "stream_extract iss =
     (let rest = dropWhile isspace iss
      in if rest = [] then None
         else Some (takeWhile (\<lambda>c. \<not> isspace c) rest, dropWhile (\<lambda>c. \<not> isspace c) rest))"

function TokenizeInput_loop :: "string \<Rightarrow> string list \<Rightarrow> string list" where
  "TokenizeInput_loop iss tokens =
     (case stream_extract iss of
        None \<Rightarrow> tokens
      | Some (token, iss') \<Rightarrow> TokenizeInput_loop iss' (tokens @ [token]))"
  by pat_completeness auto
termination
proof (relation "measure (\<lambda>(iss, tokens). length iss)")
  show "wf (measure (\<lambda>(iss, tokens :: string list). length (iss :: string)))"
    by simp
next
  fix iss :: string and tokens :: "string list" and p token iss'
  assume a: "stream_extract iss = Some p" and p: "(token, iss') = p"
  define rest where "rest = dropWhile isspace iss"
  from a p have ne: "rest \<noteq> []" and i: "iss' = dropWhile (\<lambda>c. \<not> isspace c) rest"
    by (auto simp: stream_extract_def Let_def rest_def split: if_splits)
  from ne have "\<not> isspace (hd rest)"
    unfolding rest_def by (rule hd_dropWhile)
  with ne have "length (dropWhile (\<lambda>c. \<not> isspace c) rest) < length rest"
    by (cases rest) (auto intro: le_imp_less_Suc length_dropWhile_le)
  moreover have "length rest \<le> length iss"
    unfolding rest_def by (rule length_dropWhile_le)
  ultimately show "((iss', tokens @ [token]), (iss, tokens)) \<in> measure (\<lambda>(iss, tokens). length iss)"
    using i by simp
qed

declare TokenizeInput_loop.simps [simp del]

definition TokenizeInput :: "string \<Rightarrow> string list" where
  "TokenizeInput input = TokenizeInput_loop input []"

subsection \<open>The dispatcher\<close>

text \<open>
  \<open>ParseInput\<close> (lines 163-200). \<open>tokens[0]\<close> and \<open>args.erase(args.begin())\<close> need a first
  token; \<open>args\<close> is the rest of the vector.
\<close>

definition ParseInput :: "string \<Rightarrow> state \<Rightarrow> undefined_behaviour + (cmd_ptr \<times> state)" where
  "ParseInput input s =
     (case TokenizeInput input of
        [] \<Rightarrow> Inl Empty_Vector_Index
      | commandname # args \<Rightarrow>
          if commandname = ''save'' then Inr (new SaveCommand s)
          else if commandname = ''saveas'' then
            (case args of
               [] \<Rightarrow> Inr (nullptr, s\<lparr>cout := cout s @ [Msg_Missing_newpath]\<rparr>)
             | a # _ \<Rightarrow> Inr (new (SaveAsCommand_ctor s a) s))
          else if commandname = ''open'' then
            (case args of
               [] \<Rightarrow> Inr (nullptr, s\<lparr>cout := cout s @ [Msg_Missing_filepath]\<rparr>)
             | a # _ \<Rightarrow> Inr (new (OpenCommand a) s))
          else if commandname = ''print'' then Inr (new PrintCommand s)
          else if commandname = ''close'' then Inr (new CloseCommand s)
          else if commandname = ''new'' then Inr (new NewCommand s)
          else Inr (nullptr, s))"

text \<open>
  One iteration of the loop of \<open>Run\<close> (lines 140-158) on the line that \<open>getline\<close> read.
\<close>

definition Run_iteration :: "string \<Rightarrow> state \<Rightarrow> undefined_behaviour + state" where
  "Run_iteration input s =
     (case ParseInput input (s\<lparr>cout := cout s @ [Msg_Prompt]\<rparr>) of
        Inl e \<Rightarrow> Inl e
      | Inr (command, s1) \<Rightarrow>
          if command \<noteq> nullptr then
            (case call_Execute command s1 of
               Inl e \<Rightarrow> Inl e
             | Inr s2 \<Rightarrow> Inr (s2\<lparr>commandhistory := Push command (commandhistory s2)\<rparr>))
          else Inr (s1\<lparr>cout := cout s1 @ [Msg_NotRecognized]\<rparr>))"

text \<open>
  The loop has no exit; \<open>Run_lines\<close> is the state it has reached when it has consumed the
  given lines, one iteration each.
\<close>

fun Run_lines :: "string list \<Rightarrow> state \<Rightarrow> undefined_behaviour + state" where
  "Run_lines [] s = Inr s"
| "Run_lines (input # inputs) s =
     (case Run_iteration input s of Inl e \<Rightarrow> Inl e | Inr s' \<Rightarrow> Run_lines inputs s')"

text \<open>
  Undoing the last command, as the scenarios of the specification do it:
  \<open>commandhistory.Pop()->Undo()\<close>. The loop of \<open>Run\<close> never does this.
\<close>

definition Pop_Undo :: "state \<Rightarrow> undefined_behaviour + state" where
  "Pop_Undo s =
     (case Pop (commandhistory s) of
        Inl e \<Rightarrow> Inl e
      | Inr (command, commands) \<Rightarrow> call_Undo command (s\<lparr>commandhistory := commands\<rparr>))"

text \<open>Sequencing of steps that may be undefined: the first undefined step ends the run.\<close>

definition bind_ub ::
  "undefined_behaviour + 'a \<Rightarrow> ('a \<Rightarrow> undefined_behaviour + 'b) \<Rightarrow> undefined_behaviour + 'b"
where
  "bind_ub r f = (case r of Inl e \<Rightarrow> Inl e | Inr x \<Rightarrow> f x)"

section \<open>Properties\<close>

subsection \<open>The tokenizer\<close>

lemma stream_extract_None: "stream_extract iss = None \<longleftrightarrow> (\<forall>c\<in>set iss. isspace c)"
  by (simp add: stream_extract_def Let_def)

lemma stream_extract_shorter:
  assumes "stream_extract iss = Some (token, iss')"
  shows "length iss' < length iss"
proof -
  let ?rest = "dropWhile isspace iss"
  from assms have ne: "?rest \<noteq> []" and i: "iss' = dropWhile (\<lambda>c. \<not> isspace c) ?rest"
    by (auto simp: stream_extract_def Let_def split: if_splits)
  from ne obtain c cs where r: "?rest = c # cs" by (cases ?rest) auto
  have "\<not> isspace c" using hd_dropWhile[OF ne] r by simp
  then have "length iss' \<le> length cs"
    using i r by (simp add: length_dropWhile_le)
  also have "length cs < length ?rest" using r by simp
  also have "length ?rest \<le> length iss" by (rule length_dropWhile_le)
  finally show ?thesis .
qed

lemma TokenizeInput_loop_acc:
  "TokenizeInput_loop iss acc = acc @ TokenizeInput_loop iss []"
proof (induction "length iss" arbitrary: iss acc rule: less_induct)
  case less
  show ?case
  proof (cases "stream_extract iss")
    case None
    then show ?thesis by (simp add: TokenizeInput_loop.simps)
  next
    case (Some p)
    obtain token iss' where p: "p = (token, iss')" by (cases p)
    with Some have "length iss' < length iss" by (auto dest: stream_extract_shorter)
    then have ih: "TokenizeInput_loop iss' a = a @ TokenizeInput_loop iss' []" for a
      by (rule less)
    have "TokenizeInput_loop iss acc = TokenizeInput_loop iss' (acc @ [token])"
      using Some p by (simp add: TokenizeInput_loop.simps[of iss])
    also have "\<dots> = acc @ TokenizeInput_loop iss' [token]"
      using ih[of "acc @ [token]"] ih[of "[token]"] by simp
    also have "TokenizeInput_loop iss' [token] = TokenizeInput_loop iss []"
      using Some p by (simp add: TokenizeInput_loop.simps[of iss])
    finally show ?thesis .
  qed
qed

lemma TokenizeInput_unfold:
  "TokenizeInput input =
     (case stream_extract input of None \<Rightarrow> [] | Some (token, iss') \<Rightarrow> token # TokenizeInput iss')"
proof (cases "stream_extract input")
  case None
  then show ?thesis by (simp add: TokenizeInput_def TokenizeInput_loop.simps)
next
  case (Some p)
  obtain token iss' where p: "p = (token, iss')" by (cases p)
  have "TokenizeInput_loop input [] = TokenizeInput_loop iss' [token]"
    using Some p by (simp add: TokenizeInput_loop.simps[of input])
  also have "\<dots> = token # TokenizeInput_loop iss' []"
    using TokenizeInput_loop_acc[of iss' "[token]"] by simp
  finally show ?thesis using Some p by (simp add: TokenizeInput_def)
qed

lemma TokenizeInput_Nil_iff: "TokenizeInput input = [] \<longleftrightarrow> (\<forall>c\<in>set input. isspace c)"
proof -
  have "TokenizeInput input = [] \<longleftrightarrow> stream_extract input = None"
    by (subst TokenizeInput_unfold) (simp split: option.splits)
  then show ?thesis by (simp add: stream_extract_None)
qed

lemma stream_extract_token:
  assumes ws: "\<forall>c\<in>set ws. isspace c"
    and t: "t \<noteq> []" "\<forall>c\<in>set t. \<not> isspace c"
    and rest: "rest = [] \<or> isspace (hd rest)"
  shows "stream_extract (ws @ t @ rest) = Some (t, rest)"
proof -
  from t obtain c cs where tc: "t = c # cs" and c: "\<not> isspace c" by (cases t) auto
  have d: "dropWhile isspace (ws @ t @ rest) = t @ rest"
    using ws c by (simp add: dropWhile_append tc)
  have tk: "takeWhile (\<lambda>c. \<not> isspace c) (t @ rest) = t"
    using t(2) rest by (cases rest) (auto simp: takeWhile_append)
  have dr: "dropWhile (\<lambda>c. \<not> isspace c) (t @ rest) = rest"
    using t(2) rest by (cases rest) (auto simp: dropWhile_append)
  show ?thesis
    using t(1) by (simp add: stream_extract_def d tk dr)
qed

lemma TokenizeInput_token:
  assumes "\<forall>c\<in>set ws. isspace c" "t \<noteq> []" "\<forall>c\<in>set t. \<not> isspace c"
    "rest = [] \<or> isspace (hd rest)"
  shows "TokenizeInput (ws @ t @ rest) = t # TokenizeInput rest"
  by (subst TokenizeInput_unfold) (simp add: stream_extract_token[OF assms])

lemmas Editor_defs =
  Editor_Save_def Editor_SaveAs_def Editor_Open_def Editor_Print_def Editor_Close_def
  Editor_Revert_def Editor_CreateNew_def Editor_SetPath_def Editor_GetPath_def notify_def

subsection \<open>The history\<close>

lemma Pop_Push: "Pop (Push c h) = Inr (c, h)"
  by (simp add: Pop_def Push_def)

text \<open>
  C5. The history is last in, first out: on every history, after the pushes of three
  commands, three calls of \<open>Pop\<close> return the third, the second and the first, and leave
  the history that was there before the pushes.
\<close>

theorem history_is_lifo:
  "Pop (Push c3 (Push c2 (Push c1 h))) = Inr (c3, Push c2 (Push c1 h))
   \<and> Pop (Push c2 (Push c1 h)) = Inr (c2, Push c1 h)
   \<and> Pop (Push c1 h) = Inr (c1, h)"
  by (simp add: Pop_Push)

theorem history_is_lifo_witness:
  "Pop (Push (Addr 2) (Push (Addr 1) (Push (Addr 0) []))) =
     Inr (Addr 2, Push (Addr 1) (Push (Addr 0) []))
   \<and> Pop (Push (Addr 1) (Push (Addr 0) [])) = Inr (Addr 1, Push (Addr 0) [])
   \<and> Pop (Push (Addr 0) []) = Inr (Addr 0, [])"
  using history_is_lifo [of "Addr 2" "Addr 1" "Addr 0" "[]"] by simp

text \<open>
  C9. \<open>Pop\<close> needs a non-empty history. On a non-empty history it returns the last
  element, which is the command pushed most recently, and removes it. Nothing in \<open>Pop\<close>
  tests for emptiness: on the empty history it reads \<open>back()\<close> of an empty vector, which
  is undefined behaviour.
\<close>

theorem Pop_precondition:
  "(commands \<noteq> [] \<longrightarrow> Pop commands = Inr (last commands, butlast commands))
   \<and> Pop (Push c commands) = Inr (c, commands)
   \<and> Pop [] = Inl Empty_Vector_Back"
  by (simp add: Pop_def Push_def)

theorem Pop_precondition_witness:
  "[Addr 0, Addr 1] \<noteq> [] \<and> Pop [Addr 0, Addr 1] = Inr (Addr 1, [Addr 0])
   \<and> Pop (Push (Addr 2) [Addr 0, Addr 1]) = Inr (Addr 2, [Addr 0, Addr 1])
   \<and> Pop [] = Inl Empty_Vector_Back"
  using Pop_precondition [of "[Addr 0, Addr 1]" "Addr 2"] by simp

subsection \<open>The commands and the receiver\<close>

text \<open>
  C4. \<open>Execute\<close> and \<open>Undo\<close> of every command class call exactly the receiver methods of
  the table: Save calls \<open>Save\<close> and \<open>Revert\<close>; SaveAs calls \<open>SaveAs(newpath)\<close> and
  \<open>SetPath(oldpath)\<close>; Open calls \<open>Open(path)\<close> and \<open>Close\<close>; Print calls \<open>Print\<close> and
  nothing; Close calls \<open>Close\<close> and \<open>Open(p)\<close>, where \<open>p\<close> is the receiver's path at the
  time of the undo (a \<open>SetPath\<close> between the execution and the undo changes it); New calls
  \<open>CreateNew\<close> and \<open>Close\<close>.
\<close>

theorem command_table:
  "calls (Execute SaveCommand s) = calls s @ [Call_Save]
   \<and> calls (Undo SaveCommand s) = calls s @ [Call_Revert]
   \<and> calls (Execute (SaveAsCommand oldpath newpath) s) = calls s @ [Call_SaveAs newpath]
   \<and> calls (Undo (SaveAsCommand oldpath newpath) s) = calls s @ [Call_SetPath oldpath]
   \<and> calls (Execute (OpenCommand path) s) = calls s @ [Call_Open path]
   \<and> calls (Undo (OpenCommand path) s) = calls s @ [Call_Close]
   \<and> calls (Execute PrintCommand s) = calls s @ [Call_Print]
   \<and> calls (Undo PrintCommand s) = calls s
   \<and> calls (Execute CloseCommand s) = calls s @ [Call_Close]
   \<and> calls (Undo CloseCommand s) = calls s @ [Call_Open (Editor_GetPath s)]
   \<and> calls (Undo CloseCommand (Editor_SetPath p (Execute CloseCommand s))) =
       calls s @ [Call_Close, Call_SetPath p, Call_Open p]
   \<and> calls (Execute NewCommand s) = calls s @ [Call_CreateNew]
   \<and> calls (Undo NewCommand s) = calls s @ [Call_Close]"
  by (simp add: Editor_defs)

theorem command_table_witness:
  "calls (Undo CloseCommand (Editor_SetPath ''b.txt'' (Execute CloseCommand Application_init))) =
     [Call_Close, Call_SetPath ''b.txt'', Call_Open ''b.txt'']
   \<and> calls (Undo (SaveAsCommand ''a.txt'' ''b.txt'') Application_init) = [Call_SetPath ''a.txt'']"
  using command_table [of Application_init "''a.txt''" "''b.txt''" "''c.txt''" "''b.txt''"]
  by (simp add: Application_init_def)

text \<open>
  C3. \<open>Undo\<close> of a SaveAs command sets the editor's path to the path the editor had when
  the command was constructed, in whatever state \<open>s'\<close> the undo is called: what happened
  to the path between the construction and the undo, and which other undos were done
  before, does not matter.
\<close>

theorem SaveAs_Undo_restores:
  "Editor_GetPath (Undo (SaveAsCommand_ctor s newpath) s') = Editor_GetPath s"
  by (simp add: SaveAsCommand_ctor_def Editor_SetPath_def Editor_GetPath_def)

theorem SaveAs_Undo_restores_witness:
  "Editor_GetPath
     (Undo (SaveAsCommand_ctor (Editor_SetPath ''a.txt'' Application_init) ''b.txt'')
        (Editor_SetPath ''c.txt'' Application_init)) = ''a.txt''"
  using SaveAs_Undo_restores [of "Editor_SetPath ''a.txt'' Application_init" "''b.txt''"
      "Editor_SetPath ''c.txt'' Application_init"]
  by (simp add: Editor_SetPath_def Editor_GetPath_def Application_init_def)

text \<open>
  C10. \<open>Execute\<close> of every command leaves the editor's fields, so its path, as they
  were (\<open>Execute\<close> of SaveAs too), and so does the construction of a command. \<open>Undo\<close> of
  every command other than SaveAs leaves them as they were; \<open>Undo\<close> of SaveAs assigns
  the path.
\<close>

theorem path_frame:
  "editor (Execute c s) = editor s
   \<and> editor (snd (new c s)) = editor s
   \<and> ((\<forall>oldpath newpath. c \<noteq> SaveAsCommand oldpath newpath) \<longrightarrow> editor (Undo c s) = editor s)
   \<and> editor (Undo (SaveAsCommand oldpath newpath) s) = (editor s)\<lparr>filepath := oldpath\<rparr>"
  by (cases c) (simp_all add: Editor_defs new_def)

theorem path_frame_witness:
  "editor (Execute (SaveAsCommand ''a.txt'' ''b.txt'') Application_init) = editor Application_init
   \<and> editor (Undo CloseCommand Application_init) = editor Application_init
   \<and> filepath (editor (Undo (SaveAsCommand ''a.txt'' ''b.txt'') Application_init)) = ''a.txt''"
  using path_frame [of "SaveAsCommand ''a.txt'' ''b.txt''" Application_init "''a.txt''" "''b.txt''"]
    path_frame [of CloseCommand Application_init "''a.txt''" "''b.txt''"]
  by simp

subsection \<open>The dispatcher\<close>

lemma ParseInput_tokens:
  "TokenizeInput input \<noteq> [] \<Longrightarrow>
   \<exists>p s1. ParseInput input s = Inr (p, s1) \<and> (p = nullptr \<or> (\<exists>c. deref p s1 = Some c))"
  by (auto simp: ParseInput_def new_def split: list.splits)

lemma Run_iteration_tokens:
  assumes "TokenizeInput input \<noteq> []"
  shows "\<exists>s'. Run_iteration input s = Inr s'"
proof -
  from ParseInput_tokens[OF assms] obtain p s1 where
    p: "ParseInput input (s\<lparr>cout := cout s @ [Msg_Prompt]\<rparr>) = Inr (p, s1)"
    and d: "p = nullptr \<or> (\<exists>c. deref p s1 = Some c)" by blast
  show ?thesis
    using p d by (auto simp: Run_iteration_def call_Execute_def)
qed

text \<open>
  C2. \<open>TokenizeInput\<close> returns no token exactly for the lines that are empty or consist
  of whitespace. On such a line \<open>ParseInput\<close> reads \<open>tokens[0]\<close> of an empty vector, which
  is undefined behaviour, and so is the iteration of \<open>Run\<close>. On every line that has a
  character other than whitespace the iteration is defined.
\<close>

theorem empty_line_undefined:
  "(TokenizeInput input = [] \<longleftrightarrow> (\<forall>c\<in>set input. isspace c))
   \<and> ((\<forall>c\<in>set input. isspace c) \<longrightarrow>
        ParseInput input s = Inl Empty_Vector_Index \<and> Run_iteration input s = Inl Empty_Vector_Index)
   \<and> ((\<exists>c\<in>set input. \<not> isspace c) \<longrightarrow> (\<exists>s'. Run_iteration input s = Inr s'))"
proof -
  have a: "TokenizeInput input = [] \<longleftrightarrow> (\<forall>c\<in>set input. isspace c)"
    by (rule TokenizeInput_Nil_iff)
  have b: "ParseInput input s = Inl Empty_Vector_Index \<and> Run_iteration input s = Inl Empty_Vector_Index"
    if "TokenizeInput input = []" for s
    using that by (simp add: ParseInput_def Run_iteration_def)
  have c: "\<exists>s'. Run_iteration input s = Inr s'" if "TokenizeInput input \<noteq> []"
    using that by (rule Run_iteration_tokens)
  show ?thesis using a b c by blast
qed

theorem empty_line_undefined_witness:
  "TokenizeInput [] = [] \<and> Run_iteration [] Application_init = Inl Empty_Vector_Index
   \<and> TokenizeInput [CHR 0x20, CHR 0x09] = []
   \<and> Run_iteration [CHR 0x20, CHR 0x09] Application_init = Inl Empty_Vector_Index
   \<and> (\<exists>s'. Run_iteration ''new'' Application_init = Inr s')"
  using empty_line_undefined [of "[]" Application_init]
    empty_line_undefined [of "[CHR 0x20, CHR 0x09]" Application_init]
    empty_line_undefined [of "''new''" Application_init]
  by (simp add: isspace_def)

lemma Run_iteration_new:
  assumes "ParseInput input (s\<lparr>cout := cout s @ [Msg_Prompt]\<rparr>) =
             Inr (new c (s\<lparr>cout := cout s @ [Msg_Prompt]\<rparr>))"
  shows "Run_iteration input s =
           Inr ((Execute c (s\<lparr>cout := cout s @ [Msg_Prompt], heap := heap s @ [c]\<rparr>))
                 \<lparr>commandhistory := commandhistory s @ [Addr (length (heap s))]\<rparr>)"
  using assms
  by (cases c) (simp_all add: Run_iteration_def new_def call_Execute_def Push_def Editor_defs)

lemma Execute_one_call: "\<exists>x. calls (Execute c s) = calls s @ [x]"
  by (cases c) (simp_all add: Editor_defs)

lemma Execute_frame:
  "heap (Execute c s) = heap s" "commandhistory (Execute c s) = commandhistory s"
  by (cases c; simp add: Editor_defs)+

text \<open>
  C6. A line whose first token is one of \<open>save\<close>, \<open>saveas\<close>, \<open>open\<close>, \<open>print\<close>, \<open>close\<close>,
  \<open>new\<close>, with a second token when the first is \<open>saveas\<close> or \<open>open\<close>: the iteration
  allocates one command object \<open>c\<close>, executes it once (one receiver call is added to the
  trace) and pushes one entry, the address of \<open>c\<close>, onto the history.
\<close>

theorem recognized_line_one_command:
  assumes tok: "TokenizeInput input = commandname # args"
    and name: "commandname \<in> {''save'', ''saveas'', ''open'', ''print'', ''close'', ''new''}"
    and arg: "commandname \<in> {''saveas'', ''open''} \<longrightarrow> args \<noteq> []"
  shows "\<exists>c s'. Run_iteration input s = Inr s'
     \<and> s' = (Execute c (s\<lparr>cout := cout s @ [Msg_Prompt], heap := heap s @ [c]\<rparr>))
               \<lparr>commandhistory := commandhistory s @ [Addr (length (heap s))]\<rparr>
     \<and> heap s' = heap s @ [c]
     \<and> commandhistory s' = Push (Addr (length (heap s))) (commandhistory s)
     \<and> deref (Addr (length (heap s))) s' = Some c
     \<and> (\<exists>x. calls s' = calls s @ [x])
     \<and> c = (if commandname = ''save'' then SaveCommand
            else if commandname = ''saveas'' then SaveAsCommand (Editor_GetPath s) (hd args)
            else if commandname = ''open'' then OpenCommand (hd args)
            else if commandname = ''print'' then PrintCommand
            else if commandname = ''close'' then CloseCommand
            else NewCommand)"
proof -
  let ?s0 = "s\<lparr>cout := cout s @ [Msg_Prompt]\<rparr>"
  define c where "c = (if commandname = ''save'' then SaveCommand
            else if commandname = ''saveas'' then SaveAsCommand (Editor_GetPath s) (hd args)
            else if commandname = ''open'' then OpenCommand (hd args)
            else if commandname = ''print'' then PrintCommand
            else if commandname = ''close'' then CloseCommand
            else NewCommand)"
  have "ParseInput input ?s0 = Inr (new c ?s0)"
    using tok name arg
    by (cases args)
      (auto simp: ParseInput_def c_def SaveAsCommand_ctor_def Editor_GetPath_def)
  then have r: "Run_iteration input s =
           Inr ((Execute c (s\<lparr>cout := cout s @ [Msg_Prompt], heap := heap s @ [c]\<rparr>))
                 \<lparr>commandhistory := commandhistory s @ [Addr (length (heap s))]\<rparr>)"
    by (rule Run_iteration_new)
  obtain x where x: "calls (Execute c (s\<lparr>cout := cout s @ [Msg_Prompt], heap := heap s @ [c]\<rparr>)) = calls s @ [x]"
    using Execute_one_call[of c "s\<lparr>cout := cout s @ [Msg_Prompt], heap := heap s @ [c]\<rparr>"] by auto
  show ?thesis
    using r x by (simp add: Execute_frame Push_def c_def[symmetric])
qed

theorem recognized_line_one_command_witness:
  "Run_iteration ''saveas b.txt'' Application_init =
     Inr \<lparr>editor = \<lparr>filepath = [], filecontent = []\<rparr>, commandhistory = [Addr 0],
          heap = [SaveAsCommand [] ''b.txt''], cout = [Msg_Prompt, Msg_SaveAs],
          calls = [Call_SaveAs ''b.txt'']\<rparr>"
proof -
  have t: "TokenizeInput ''saveas b.txt'' = ''saveas'' # [''b.txt'']"
    by code_simp
  show ?thesis
    using recognized_line_one_command [OF t, of Application_init]
    by (simp add: Application_init_def Editor_defs)
qed

text \<open>
  C7. A line whose first token is none of the six command names: \<open>ParseInput\<close> returns
  the null pointer and allocates nothing, and the iteration changes nothing but the
  console, where it prints the prompt and the "not recognised" message.
\<close>

theorem unrecognized_line_no_command:
  assumes "TokenizeInput input = commandname # args"
    and "commandname \<notin> {''save'', ''saveas'', ''open'', ''print'', ''close'', ''new''}"
  shows "ParseInput input s = Inr (nullptr, s)
     \<and> Run_iteration input s = Inr (s\<lparr>cout := cout s @ [Msg_Prompt, Msg_NotRecognized]\<rparr>)"
  using assms by (simp add: ParseInput_def Run_iteration_def)

theorem unrecognized_line_no_command_witness:
  "ParseInput ''foo bar'' Application_init = Inr (nullptr, Application_init)
   \<and> Run_iteration ''foo bar'' Application_init =
       Inr (Application_init\<lparr>cout := [Msg_Prompt, Msg_NotRecognized]\<rparr>)"
proof -
  have t: "TokenizeInput ''foo bar'' = ''foo'' # [''bar'']"
    by code_simp
  show ?thesis
    using unrecognized_line_no_command [OF t, of Application_init]
    by (simp add: Application_init_def)
qed

lemma no_space_names:
  "\<forall>c\<in>set ''saveas''. \<not> isspace c" "\<forall>c\<in>set ''open''. \<not> isspace c"
  by (simp_all add: isspace_def)

lemma TokenizeInput_name_only:
  assumes "\<forall>c\<in>set ws1. isspace c" "\<forall>c\<in>set ws2. isspace c"
    "t \<noteq> []" "\<forall>c\<in>set t. \<not> isspace c"
  shows "TokenizeInput (ws1 @ t @ ws2) = [t]"
proof -
  have "ws2 = [] \<or> isspace (hd ws2)" using assms(2) by (cases ws2) auto
  then have "TokenizeInput (ws1 @ t @ ws2) = t # TokenizeInput ws2"
    using assms by (intro TokenizeInput_token) auto
  also have "TokenizeInput ws2 = []" using assms(2) by (simp add: TokenizeInput_Nil_iff)
  finally show ?thesis .
qed

lemma TokenizeInput_name_arg:
  assumes ws1: "\<forall>c\<in>set ws1. isspace c" and ws2: "\<forall>c\<in>set ws2. isspace c" "ws2 \<noteq> []"
    and t: "t \<noteq> []" "\<forall>c\<in>set t. \<not> isspace c"
    and a: "arg \<noteq> []" "\<forall>c\<in>set arg. \<not> isspace c"
    and rest: "rest = [] \<or> isspace (hd rest)"
  shows "TokenizeInput (ws1 @ t @ ws2 @ arg @ rest) = t # arg # TokenizeInput rest"
proof -
  have "isspace (hd (ws2 @ arg @ rest))" using ws2 by (cases ws2) auto
  then have "TokenizeInput (ws1 @ t @ (ws2 @ arg @ rest)) = t # TokenizeInput (ws2 @ arg @ rest)"
    using ws1 t by (intro TokenizeInput_token) auto
  also have "TokenizeInput (ws2 @ arg @ rest) = arg # TokenizeInput rest"
    using ws2 a rest by (intro TokenizeInput_token) auto
  finally show ?thesis by simp
qed

lemma Run_iteration_missing:
  "TokenizeInput input = [''saveas''] \<Longrightarrow>
     Run_iteration input s =
       Inr (s\<lparr>cout := cout s @ [Msg_Prompt, Msg_Missing_newpath, Msg_NotRecognized]\<rparr>)"
  "TokenizeInput input = [''open''] \<Longrightarrow>
     Run_iteration input s =
       Inr (s\<lparr>cout := cout s @ [Msg_Prompt, Msg_Missing_filepath, Msg_NotRecognized]\<rparr>)"
  by (simp_all add: Run_iteration_def ParseInput_def)

lemma ParseInput_argument:
  "TokenizeInput input = ''saveas'' # a # r \<Longrightarrow>
     ParseInput input s = Inr (new (SaveAsCommand (Editor_GetPath s) a) s)"
  "TokenizeInput input = ''open'' # a # r \<Longrightarrow>
     ParseInput input s = Inr (new (OpenCommand a) s)"
  by (simp_all add: ParseInput_def SaveAsCommand_ctor_def)

text \<open>
  A line that holds only \<open>saveas\<close>, or only \<open>open\<close>, between any whitespace: \<open>ParseInput\<close>
  prints the "missing argument" line and returns the null pointer, and \<open>Run\<close> then takes
  the branch of the null pointer and prints the "not recognised" line after it. Nothing is
  allocated or pushed.
\<close>

lemma name_only_line:
  assumes ws1: "\<forall>c\<in>set ws1. isspace c" and ws2: "\<forall>c\<in>set ws2. isspace c"
  shows "Run_iteration (ws1 @ ''saveas'' @ ws2) s =
           Inr (s\<lparr>cout := cout s @ [Msg_Prompt, Msg_Missing_newpath, Msg_NotRecognized]\<rparr>)"
    and "Run_iteration (ws1 @ ''open'' @ ws2) s =
           Inr (s\<lparr>cout := cout s @ [Msg_Prompt, Msg_Missing_filepath, Msg_NotRecognized]\<rparr>)"
proof -
  have 1: "TokenizeInput (ws1 @ ''saveas'' @ ws2) = [''saveas'']"
    using ws1 ws2 no_space_names(1) by (intro TokenizeInput_name_only) auto
  have 2: "TokenizeInput (ws1 @ ''open'' @ ws2) = [''open'']"
    using ws1 ws2 no_space_names(2) by (intro TokenizeInput_name_only) auto
  show "Run_iteration (ws1 @ ''saveas'' @ ws2) s =
           Inr (s\<lparr>cout := cout s @ [Msg_Prompt, Msg_Missing_newpath, Msg_NotRecognized]\<rparr>)"
    by (rule Run_iteration_missing(1)[OF 1])
  show "Run_iteration (ws1 @ ''open'' @ ws2) s =
           Inr (s\<lparr>cout := cout s @ [Msg_Prompt, Msg_Missing_filepath, Msg_NotRecognized]\<rparr>)"
    by (rule Run_iteration_missing(2)[OF 2])
qed

text \<open>
  When an argument follows the name, the command holds exactly the characters of the
  argument between the whitespace around it.
\<close>

lemma argument_token_verbatim:
  assumes ws1: "\<forall>c\<in>set ws1. isspace c" and ws2: "\<forall>c\<in>set ws2. isspace c" "ws2 \<noteq> []"
    and a: "arg \<noteq> []" "\<forall>c\<in>set arg. \<not> isspace c"
    and rest: "rest = [] \<or> isspace (hd rest)"
  shows "ParseInput (ws1 @ ''saveas'' @ ws2 @ arg @ rest) s =
           Inr (new (SaveAsCommand (Editor_GetPath s) arg) s)"
    and "ParseInput (ws1 @ ''open'' @ ws2 @ arg @ rest) s = Inr (new (OpenCommand arg) s)"
proof -
  have 3: "TokenizeInput (ws1 @ ''saveas'' @ ws2 @ arg @ rest) = ''saveas'' # arg # TokenizeInput rest"
    using ws1 ws2 a rest no_space_names(1) by (intro TokenizeInput_name_arg) auto
  have 4: "TokenizeInput (ws1 @ ''open'' @ ws2 @ arg @ rest) = ''open'' # arg # TokenizeInput rest"
    using ws1 ws2 a rest no_space_names(2) by (intro TokenizeInput_name_arg) auto
  show "ParseInput (ws1 @ ''saveas'' @ ws2 @ arg @ rest) s =
           Inr (new (SaveAsCommand (Editor_GetPath s) arg) s)"
    by (rule ParseInput_argument(1)[OF 3])
  show "ParseInput (ws1 @ ''open'' @ ws2 @ arg @ rest) s = Inr (new (OpenCommand arg) s)"
    by (rule ParseInput_argument(2)[OF 4])
qed

text \<open>
  C8 has the missing argument handled as the unrecognised command is: one console
  message, here the "missing argument" line, and nothing else. On the lines \<open>saveas\<close>
  and \<open>open\<close> the code allocates and pushes nothing, as C8 says, but it prints two
  diagnostics: the "missing argument" line of \<open>ParseInput\<close> (lines 176 and 183) and then
  the "not recognised" line of \<open>Run\<close> (line 156), for a command name that was recognised.
  The console is not the prompt followed by the one "missing argument" line.
\<close>

theorem missing_argument_two_diagnostics:
  "Run_iteration ''saveas'' Application_init =
     Inr (Application_init\<lparr>cout := [Msg_Prompt, Msg_Missing_newpath, Msg_NotRecognized]\<rparr>)
   \<and> Run_iteration ''saveas'' Application_init \<noteq>
     Inr (Application_init\<lparr>cout := [Msg_Prompt, Msg_Missing_newpath]\<rparr>)
   \<and> Run_iteration ''open'' Application_init =
     Inr (Application_init\<lparr>cout := [Msg_Prompt, Msg_Missing_filepath, Msg_NotRecognized]\<rparr>)
   \<and> Run_iteration ''open'' Application_init \<noteq>
     Inr (Application_init\<lparr>cout := [Msg_Prompt, Msg_Missing_filepath]\<rparr>)"
  by code_simp

subsection \<open>The scenario\<close>

text \<open>
  C1, as the specification states it, has the undo of SaveAs restore the path \<open>a.txt\<close>. It
  does not: \<open>Editor::Open\<close> prints its notification and leaves the path alone, so the
  path that \<open>saveas b.txt\<close> captures is the empty path of the fresh editor, and after the
  two undos the path is empty.
\<close>

theorem scenario_SaveAs_undo_counterexample:
  "map_sum id Editor_GetPath
     (bind_ub (bind_ub (Run_lines [''open a.txt'', ''saveas b.txt'', ''close''] Application_init)
        Pop_Undo) Pop_Undo) = Inr []
   \<and> map_sum id Editor_GetPath
     (bind_ub (bind_ub (Run_lines [''open a.txt'', ''saveas b.txt'', ''close''] Application_init)
        Pop_Undo) Pop_Undo) \<noteq> Inr ''a.txt''
   \<and> map_sum id calls
     (bind_ub (bind_ub (Run_lines [''open a.txt'', ''saveas b.txt'', ''close''] Application_init)
        Pop_Undo) Pop_Undo) =
     Inr [Call_Open ''a.txt'', Call_SaveAs ''b.txt'', Call_Close, Call_Open [], Call_SetPath []]"
  by code_simp

text \<open>
  C1, amended. From the initial state, the lines \<open>open a.txt\<close>, \<open>saveas b.txt\<close>, \<open>close\<close>
  allocate, execute and push three commands in this order. Popping and undoing them calls
  \<open>Open\<close> with the receiver's current path, which is empty (undo of Close), then \<open>SetPath\<close>
  with the empty path that the SaveAs command captured (undo of SaveAs), then \<open>Close\<close>
  (undo of Open), and leaves the history empty.
\<close>

theorem scenario_open_saveas_close:
  "Run_lines [''open a.txt'', ''saveas b.txt'', ''close''] Application_init =
     Inr \<lparr>editor = \<lparr>filepath = [], filecontent = []\<rparr>,
          commandhistory = [Addr 0, Addr 1, Addr 2],
          heap = [OpenCommand ''a.txt'', SaveAsCommand [] ''b.txt'', CloseCommand],
          cout = [Msg_Prompt, Msg_Open, Msg_Prompt, Msg_SaveAs, Msg_Prompt, Msg_Close],
          calls = [Call_Open ''a.txt'', Call_SaveAs ''b.txt'', Call_Close]\<rparr>
   \<and> Pop_Undo
       \<lparr>editor = \<lparr>filepath = [], filecontent = []\<rparr>,
          commandhistory = [Addr 0, Addr 1, Addr 2],
          heap = [OpenCommand ''a.txt'', SaveAsCommand [] ''b.txt'', CloseCommand],
          cout = [Msg_Prompt, Msg_Open, Msg_Prompt, Msg_SaveAs, Msg_Prompt, Msg_Close],
          calls = [Call_Open ''a.txt'', Call_SaveAs ''b.txt'', Call_Close]\<rparr> =
     Inr \<lparr>editor = \<lparr>filepath = [], filecontent = []\<rparr>,
          commandhistory = [Addr 0, Addr 1],
          heap = [OpenCommand ''a.txt'', SaveAsCommand [] ''b.txt'', CloseCommand],
          cout = [Msg_Prompt, Msg_Open, Msg_Prompt, Msg_SaveAs, Msg_Prompt, Msg_Close, Msg_Open],
          calls = [Call_Open ''a.txt'', Call_SaveAs ''b.txt'', Call_Close, Call_Open []]\<rparr>
   \<and> Pop_Undo
       \<lparr>editor = \<lparr>filepath = [], filecontent = []\<rparr>,
          commandhistory = [Addr 0, Addr 1],
          heap = [OpenCommand ''a.txt'', SaveAsCommand [] ''b.txt'', CloseCommand],
          cout = [Msg_Prompt, Msg_Open, Msg_Prompt, Msg_SaveAs, Msg_Prompt, Msg_Close, Msg_Open],
          calls = [Call_Open ''a.txt'', Call_SaveAs ''b.txt'', Call_Close, Call_Open []]\<rparr> =
     Inr \<lparr>editor = \<lparr>filepath = [], filecontent = []\<rparr>,
          commandhistory = [Addr 0],
          heap = [OpenCommand ''a.txt'', SaveAsCommand [] ''b.txt'', CloseCommand],
          cout = [Msg_Prompt, Msg_Open, Msg_Prompt, Msg_SaveAs, Msg_Prompt, Msg_Close, Msg_Open],
          calls = [Call_Open ''a.txt'', Call_SaveAs ''b.txt'', Call_Close, Call_Open [],
                   Call_SetPath []]\<rparr>
   \<and> Pop_Undo
       \<lparr>editor = \<lparr>filepath = [], filecontent = []\<rparr>,
          commandhistory = [Addr 0],
          heap = [OpenCommand ''a.txt'', SaveAsCommand [] ''b.txt'', CloseCommand],
          cout = [Msg_Prompt, Msg_Open, Msg_Prompt, Msg_SaveAs, Msg_Prompt, Msg_Close, Msg_Open],
          calls = [Call_Open ''a.txt'', Call_SaveAs ''b.txt'', Call_Close, Call_Open [],
                   Call_SetPath []]\<rparr> =
     Inr \<lparr>editor = \<lparr>filepath = [], filecontent = []\<rparr>,
          commandhistory = [],
          heap = [OpenCommand ''a.txt'', SaveAsCommand [] ''b.txt'', CloseCommand],
          cout = [Msg_Prompt, Msg_Open, Msg_Prompt, Msg_SaveAs, Msg_Prompt, Msg_Close, Msg_Open,
                  Msg_Close],
          calls = [Call_Open ''a.txt'', Call_SaveAs ''b.txt'', Call_Close, Call_Open [],
                   Call_SetPath [], Call_Close]\<rparr>"
  by code_simp

end
